theory Spec2Isabelle
  imports Main
begin

section \<open>Python exceptions\<close>

text \<open>
  The exceptions that \<^verbatim>\<open>sync.py\<close> raises or handles. \<open>SystemExit n\<close> is what
  \<^verbatim>\<open>sys.exit(n)\<close> raises; it derives from \<^verbatim>\<open>BaseException\<close>, so a handler
  \<^verbatim>\<open>except Exception\<close> lets it pass. \<open>OtherException\<close> stands for every other
  exception class deriving from \<^verbatim>\<open>Exception\<close> (KeyError, TypeError, OSError,
  the errors of \<^verbatim>\<open>requests\<close>, ...).
\<close>

datatype exc =
    SystemExit nat
  | GitCommandError
  | InvalidGitRepositoryError
  | NoSectionError
  | OtherException

fun is_Exception :: "exc \<Rightarrow> bool" where
  "is_Exception (SystemExit n) = False"
| "is_Exception e = True"

text \<open>The status the interpreter ends with when the exception reaches the top level.\<close>

fun exit_status :: "exc \<Rightarrow> nat" where
  "exit_status (SystemExit n) = n"
| "exit_status e = 1"

section \<open>Version comparator\<close>

text \<open>
  A parsed \<^verbatim>\<open>packaging.version.Version\<close>: the three release components the code
  reads and the text that \<^verbatim>\<open>str\<close> gives back.
\<close>

record version =
  major :: nat
  minor :: nat
  micro :: nat
  vstr :: string

text \<open>Lines 428 to 438 of \<^verbatim>\<open>has_template_version_changed\<close>: the three flags.\<close>

definition classify :: "version \<Rightarrow> version \<Rightarrow> bool \<times> bool \<times> bool" where
  "classify template_version_last_sync current_ct_template_version =
     (if major template_version_last_sync < major current_ct_template_version
        then (True, False, False)
      else if minor template_version_last_sync < minor current_ct_template_version
        then (False, True, False)
      else if micro template_version_last_sync < micro current_ct_template_version
        then (False, False, True)
      else (False, False, False))"

text \<open>
  \<^verbatim>\<open>has_template_version_changed\<close>. The parser \<^verbatim>\<open>packaging.version.parse\<close> is a
  parameter; \<open>development_ok\<close> and \<open>master_ok\<close> say whether the two checkouts succeed;
  the two strings are what the project metadata and the list of available templates hold.
\<close>

definition has_template_version_changed ::
  "(string \<Rightarrow> exc + version) \<Rightarrow> bool \<Rightarrow> bool \<Rightarrow> string \<Rightarrow> string
     \<Rightarrow> exc + (bool \<times> bool \<times> bool \<times> string \<times> string)" where
  "has_template_version_changed parse development_ok master_ok last_sync current =
     (if \<not> development_ok \<and> \<not> master_ok then Inl (SystemExit 1)
      else case parse last_sync of
        Inl e \<Rightarrow> Inl e
      | Inr template_version_last_sync \<Rightarrow>
          (case parse current of
             Inl e \<Rightarrow> Inl e
           | Inr current_ct_template_version \<Rightarrow>
               (case classify template_version_last_sync current_ct_template_version of
                  (is_major_update, is_minor_update, is_patch_update) \<Rightarrow>
                    Inr (is_major_update, is_minor_update, is_patch_update,
                         vstr template_version_last_sync,
                         vstr current_ct_template_version))))"

text \<open>
  The classification in the words of the specification: the first component that is
  unequal decides.
\<close>

definition classify_by_inequality :: "version \<Rightarrow> version \<Rightarrow> bool \<times> bool \<times> bool" where
  "classify_by_inequality a b =
     (if major a \<noteq> major b then (True, False, False)
      else if minor a \<noteq> minor b then (False, True, False)
      else if micro a \<noteq> micro b then (False, False, True)
      else (False, False, False))"

text \<open>The order of versions: by major, then minor, then micro.\<close>

definition version_le :: "version \<Rightarrow> version \<Rightarrow> bool" where
  "version_le a b \<longleftrightarrow>
     major a < major b \<or>
     (major a = major b \<and> (minor a < minor b \<or> (minor a = minor b \<and> micro a \<le> micro b)))"

section \<open>Project configuration\<close>

text \<open>
  What \<^verbatim>\<open>ConfigParser.read\<close> leaves in the parser for \<^verbatim>\<open>cookietemple.cfg\<close>: for
  each section of the file, the items that \<^verbatim>\<open>parser.items(section)\<close> returns for it,
  in that order (the keys it inherits from \<open>[DEFAULT]\<close> are among them). A file that is
  not there gives no section at all.
\<close>

type_synonym config = "(string \<times> (string \<times> string) list) list"

text \<open>\<^verbatim>\<open>parser.items(section)\<close>.\<close>

definition parser_items :: "config \<Rightarrow> string \<Rightarrow> exc + (string \<times> string) list" where
  "parser_items parser section =
     (case map_of parser section of
        None \<Rightarrow> Inl NoSectionError
      | Some its \<Rightarrow> Inr its)"

text \<open>Python's \<^verbatim>\<open>sub in s\<close> on strings.\<close>

fun contains :: "string \<Rightarrow> string \<Rightarrow> bool" where
  "contains sub [] = (sub = [])"
| "contains sub (c # cs) = (take (length sub) (c # cs) = sub \<or> contains sub cs)"

section \<open>File globs\<close>

text \<open>
  \<^verbatim>\<open>fnmatch.filter(names, pat)\<close>, over the matcher of the standard library, which is a
  parameter \<open>fnm name pat\<close> of everything below.
\<close>

definition fnmatch_filter :: "(string \<Rightarrow> string \<Rightarrow> bool) \<Rightarrow> string list \<Rightarrow> string \<Rightarrow> string list" where
  "fnmatch_filter fnm names pat = filter (\<lambda>name. fnm name pat) names"

text \<open>
  The matcher of \<^verbatim>\<open>fnmatch\<close> on POSIX for patterns made of \<open>*\<close> (any run of
  characters, \<open>/\<close> included), \<open>?\<close> (any one character) and literal characters.
  Character classes \<open>[seq]\<close> are not modelled: a pattern with \<open>[\<close> is outside this
  function. Only the concrete example uses it.
\<close>

fun glob_match :: "string \<Rightarrow> string \<Rightarrow> bool" where
  "glob_match [] name = (name = [])"
| "glob_match (p # ps) name =
     (if p = CHR ''*'' then
        (glob_match ps name \<or> (case name of [] \<Rightarrow> False | c # cs \<Rightarrow> glob_match (p # ps) cs))
      else if p = CHR ''?'' then
        (case name of [] \<Rightarrow> False | c # cs \<Rightarrow> glob_match ps cs)
      else
        (case name of [] \<Rightarrow> False | c # cs \<Rightarrow> c = p \<and> glob_match ps cs))"

definition fnmatch_posix :: "string \<Rightarrow> string \<Rightarrow> bool" where
  "fnmatch_posix name pat = glob_match pat name"

text \<open>
  Lines 201 to 205 of \<^verbatim>\<open>commit_template_changes\<close>: the loop over the globs that
  collects the blacklisted files.
\<close>

fun blacklist_loop :: "(string \<Rightarrow> string \<Rightarrow> bool) \<Rightarrow> string list \<Rightarrow> string list \<Rightarrow> string list \<Rightarrow> string list" where
  "blacklist_loop fnm changed_files [] blacklisted_changed_files = blacklisted_changed_files"
| "blacklist_loop fnm changed_files (pattern # globs) blacklisted_changed_files =
     blacklist_loop fnm changed_files globs
       (blacklisted_changed_files @ fnmatch_filter fnm changed_files pattern)"

text \<open>
  Lines 201 to 210: the files to commit and the blacklisted files, as the pair
  (included, excluded).
\<close>

definition filter_excluded ::
  "(string \<Rightarrow> string \<Rightarrow> bool) \<Rightarrow> string list \<Rightarrow> string list \<Rightarrow> string list \<times> string list" where
  "filter_excluded fnm changed_files globs =
     (let blacklisted_changed_files = blacklist_loop fnm changed_files globs [];
          files_to_commit = filter (\<lambda>file. file \<notin> set blacklisted_changed_files) changed_files
      in (files_to_commit, blacklisted_changed_files))"

section \<open>The sync session\<close>

text \<open>The values of \<^verbatim>\<open>.cookietemple.yml\<close> that the code reads.\<close>

datatype yaml = YBool bool | YStr string

fun truthy :: "yaml \<Rightarrow> bool" where
  "truthy (YBool b) = b"
| "truthy (YStr s) = (s \<noteq> [])"

fun yaml_str :: "yaml \<Rightarrow> string" where
  "yaml_str (YBool b) = (if b then ''True'' else ''False'')"
| "yaml_str (YStr s) = s"

text \<open>\<^verbatim>\<open>d[key]\<close> on a dict: a missing key raises KeyError.\<close>

definition dict_get :: "(string \<times> yaml) list \<Rightarrow> string \<Rightarrow> exc + yaml" where
  "dict_get d key = (case map_of d key of None \<Rightarrow> Inl OtherException | Some v \<Rightarrow> Inr v)"

text \<open>What the session asks of git, of the file system and of the hosting service.\<close>

datatype event =
    EvCheckout string
  | EvDeleteFiles
  | EvGenerate
  | EvAdd
  | EvCommit "string list"
  | EvStash
  | EvPush
  | EvQueryPRs
  | EvPost string

text \<open>
  The fields of \<^verbatim>\<open>TemplateSync\<close>, and with them the two things outside the object
  that the claims are about: \<open>repo_branch\<close>, the branch checked out in the project's
  repository (\<open>None\<close>: detached HEAD), and \<open>trace\<close>, the operations attempted so far.
\<close>

record state =
  project_dir :: string
  from_branch :: "string option"
  original_branch :: "string option"
  made_changes :: bool
  gh_pr_returned_data :: string
  major_update :: bool
  minor_update :: bool
  patch_update :: bool
  gh_username :: string
  token :: string
  dot_cookietemple :: "(string \<times> yaml) list"
  repo_owner :: string
  new_template_version :: string
  repo_branch :: "string option"
  trace :: "event list"

text \<open>\<^verbatim>\<open>__init__\<close>, on a repository whose checked-out branch is \<open>branch\<close>.\<close>

definition init ::
  "string \<Rightarrow> string \<Rightarrow> string option \<Rightarrow> string \<Rightarrow> string \<Rightarrow> bool \<Rightarrow> bool \<Rightarrow> bool
     \<Rightarrow> string option \<Rightarrow> state" where
  "init dir version from username tok is_major is_minor is_patch branch =
     \<lparr>project_dir = dir, from_branch = from, original_branch = None, made_changes = False,
      gh_pr_returned_data = [], major_update = is_major, minor_update = is_minor,
      patch_update = is_patch, gh_username = username, token = tok, dot_cookietemple = [],
      repo_owner = username, new_template_version = version, repo_branch = branch,
      trace = []\<rparr>"

text \<open>The answer of the hosting service to the POST.\<close>

record response =
  status_code :: nat
  content :: string
  content_is_json :: bool

text \<open>
  The outcome of every call that leaves the program, fixed in advance: the session is a
  function of these. An \<open>exc option\<close> is \<open>None\<close> when the call returns.
\<close>

record env =
  dot_cookietemple_exists :: bool
  load_yaml_file :: "exc + (string \<times> yaml) list"
  is_git_repo :: bool
  dirty_at_inspect :: bool
  checkout_origin_template_ok :: bool
  checkout_local_template_ok :: bool
  delete_files :: "exc option"
  choose_domain :: "exc option"
  dirty_after_regenerate :: bool
  git_add :: "exc option"
  index_diff :: "exc + string list"
  cfg :: "exc + config"
  fnmatch :: "string \<Rightarrow> string \<Rightarrow> bool"
  popen_commit :: "exc + int"
  popen_stash :: "exc + int"
  git_push :: "exc option"
  open_prs :: "exc + string option list"
  post_pulls :: "exc + response"
  checkout_original_ok :: bool

section \<open>Policy filter\<close>

text \<open>
  \<^verbatim>\<open>check_sync_level\<close>. The handler \<^verbatim>\<open>except NoSectionError\<close> exits with status 1;
  \<^verbatim>\<open>sys.exit(1)\<close> inside the \<^verbatim>\<open>try\<close> and every other error pass through it.
\<close>

definition check_sync_level :: "env \<Rightarrow> state \<Rightarrow> exc + bool" where
  "check_sync_level ev s =
     (case cfg ev of
        Inl e \<Rightarrow> (if e = NoSectionError then Inl (SystemExit 1) else Inl e)
      | Inr parser \<Rightarrow>
          (case parser_items parser ''sync_level'' of
             Inl e \<Rightarrow> (if e = NoSectionError then Inl (SystemExit 1) else Inl e)
           | Inr level_item \<Rightarrow>
               (case level_item of
                  [(name, level)] \<Rightarrow>
                    if \<not> contains ''ct_sync_level'' name
                       \<or> \<not> (level = ''major'' \<or> level = ''minor'' \<or> level = ''patch'')
                    then Inl (SystemExit 1)
                    else if patch_update s then Inr (level \<noteq> ''minor'' \<and> level \<noteq> ''major'')
                    else if minor_update s then Inr (level \<noteq> ''major'')
                    else Inr True
                | _ \<Rightarrow> Inl (SystemExit 1))))"

text \<open>\<^verbatim>\<open>get_blacklisted_sync_globs\<close>.\<close>

definition get_blacklisted_sync_globs :: "env \<Rightarrow> exc + string list" where
  "get_blacklisted_sync_globs ev =
     (case cfg ev of
        Inl e \<Rightarrow> (if e = NoSectionError then Inl (SystemExit 1) else Inl e)
      | Inr parser \<Rightarrow>
          (case parser_items parser ''sync_files_blacklisted'' of
             Inl e \<Rightarrow> (if e = NoSectionError then Inl (SystemExit 1) else Inl e)
           | Inr globs \<Rightarrow> Inr (map snd globs)))"

section \<open>Sync orchestrator\<close>

text \<open>
  Every method takes the state and returns the state it leaves with what it raised
  (\<open>None\<close>: it returned).
\<close>

definition log_event :: "event \<Rightarrow> state \<Rightarrow> state" where
  "log_event x s = s\<lparr>trace := trace s @ [x]\<rparr>"

text \<open>
  \<^verbatim>\<open>inspect_sync_dir\<close>. \<^verbatim>\<open>active_branch\<close> raises TypeError on a detached HEAD.
\<close>

definition inspect_sync_dir :: "env \<Rightarrow> state \<Rightarrow> exc option \<times> state" where
  "inspect_sync_dir ev s =
     (if \<not> dot_cookietemple_exists ev then (Some (SystemExit 1), s)
      else case load_yaml_file ev of
        Inl e \<Rightarrow> (Some e, s)
      | Inr d \<Rightarrow>
          (let s1 = s\<lparr>dot_cookietemple := d\<rparr> in
           if \<not> is_git_repo ev then (Some (SystemExit 1), s1)
           else case repo_branch s1 of
             None \<Rightarrow> (Some OtherException, s1)
           | Some name \<Rightarrow>
               (let s2 = s1\<lparr>original_branch := Some name\<rparr> in
                if dirty_at_inspect ev then (Some (SystemExit 1), s2) else (None, s2))))"

text \<open>\<^verbatim>\<open>checkout_template_branch\<close>.\<close>

definition checkout_template_branch :: "env \<Rightarrow> state \<Rightarrow> exc option \<times> state" where
  "checkout_template_branch ev s =
     (case repo_branch s of
        None \<Rightarrow> (Some OtherException, s)
      | Some name \<Rightarrow>
          (let s1 = log_event (EvCheckout ''origin/TEMPLATE'') (s\<lparr>from_branch := Some name\<rparr>) in
           if checkout_origin_template_ok ev then (None, s1\<lparr>repo_branch := Some ''TEMPLATE''\<rparr>)
           else
             (let s2 = log_event (EvCheckout ''TEMPLATE'') s1 in
              if checkout_local_template_ok ev then (None, s2\<lparr>repo_branch := Some ''TEMPLATE''\<rparr>)
              else (Some (SystemExit 1), s2))))"

text \<open>
  \<^verbatim>\<open>delete_template_branch_files\<close>: any error of the deletion is caught and ends in
  \<^verbatim>\<open>sys.exit(1)\<close>.
\<close>

definition delete_template_branch_files :: "env \<Rightarrow> state \<Rightarrow> exc option \<times> state" where
  "delete_template_branch_files ev s =
     (let s1 = log_event EvDeleteFiles s in
      case delete_files ev of
        None \<Rightarrow> (None, s1)
      | Some e \<Rightarrow> (if is_Exception e then (Some (SystemExit 1), s1) else (Some e, s1)))"

text \<open>\<^verbatim>\<open>make_template_project\<close>: nothing is caught.\<close>

definition make_template_project :: "env \<Rightarrow> state \<Rightarrow> exc option \<times> state" where
  "make_template_project ev s =
     (let s1 = log_event EvGenerate s in
      case choose_domain ev of
        Some e \<Rightarrow> (Some e, s1)
      | None \<Rightarrow>
          (case dict_get (dot_cookietemple s1) ''project_slug'' of
             Inl e \<Rightarrow> (Some e, s1)
           | Inr slug \<Rightarrow> (None, s1)))"

text \<open>
  The handler of \<^verbatim>\<open>commit_template_changes\<close>, lines 218 to 220: an \<^verbatim>\<open>Exception\<close>
  becomes \<^verbatim>\<open>sys.exit(1)\<close>.
\<close>

definition commit_handler :: "exc \<Rightarrow> state \<Rightarrow> (exc + bool) \<times> state" where
  "commit_handler e s = (if is_Exception e then (Inl (SystemExit 1), s) else (Inl e, s))"

text \<open>
  \<^verbatim>\<open>commit_template_changes\<close>. \<^verbatim>\<open>Popen\<close> returns as soon as the process is started:
  \<open>Inr status\<close> in \<open>popen_commit\<close> and \<open>popen_stash\<close> is the exit status the process
  ends with later, which nothing reads.
\<close>

definition commit_template_changes :: "env \<Rightarrow> state \<Rightarrow> (exc + bool) \<times> state" where
  "commit_template_changes ev s =
     (if \<not> dirty_after_regenerate ev then (Inr False, s)
      else
        (let s1 = log_event EvAdd s in
         case git_add ev of
           Some e \<Rightarrow> commit_handler e s1
         | None \<Rightarrow>
             (case index_diff ev of
                Inl e \<Rightarrow> commit_handler e s1
              | Inr changed_files \<Rightarrow>
                  (case get_blacklisted_sync_globs ev of
                     Inl e \<Rightarrow> commit_handler e s1
                   | Inr globs \<Rightarrow>
                       (case filter_excluded (fnmatch ev) changed_files globs of
                          (files_to_commit, blacklisted_changed_files) \<Rightarrow>
                            (let s2 = log_event (EvCommit files_to_commit) s1 in
                             case popen_commit ev of
                               Inl e \<Rightarrow> commit_handler e s2
                             | Inr commit_status \<Rightarrow>
                                 (let s3 = log_event EvStash s2 in
                                  case popen_stash ev of
                                    Inl e \<Rightarrow> commit_handler e s3
                                  | Inr stash_status \<Rightarrow>
                                      (Inr True, s3\<lparr>made_changes := True\<rparr>))))))))"

text \<open>
  \<^verbatim>\<open>push_template_branch\<close>: a GitCommandError is caught and ends in
  \<^verbatim>\<open>sys.exit(1)\<close>; anything else is raised on.
\<close>

definition push_template_branch :: "env \<Rightarrow> state \<Rightarrow> exc option \<times> state" where
  "push_template_branch ev s =
     (let s1 = log_event EvPush s in
      case git_push ev of
        None \<Rightarrow> (None, s1)
      | Some e \<Rightarrow> (if e = GitCommandError then (Some (SystemExit 1), s1) else (Some e, s1)))"

text \<open>
  \<^verbatim>\<open>check_pull_request_exists\<close>: the loop over the open pull requests. An entry
  without a title (\<open>None\<close>) raises when the loop reaches it.
\<close>

definition sync_pr_marker :: string where
  "sync_pr_marker = ''Important cookietemple template update''"

fun sync_pr_open :: "string option list \<Rightarrow> exc + bool" where
  "sync_pr_open [] = Inr False"
| "sync_pr_open (None # query_data) = Inl OtherException"
| "sync_pr_open (Some title # query_data) =
     (if contains sync_pr_marker title then Inr True else sync_pr_open query_data)"

definition check_pull_request_exists :: "env \<Rightarrow> state \<Rightarrow> (exc + bool) \<times> state" where
  "check_pull_request_exists ev s =
     (case dict_get (dot_cookietemple s) ''project_slug'' of
        Inl e \<Rightarrow> (Inl e, s)
      | Inr slug \<Rightarrow>
          (let s1 = log_event EvQueryPRs s in
           case open_prs ev of
             Inl e \<Rightarrow> (Inl e, s1)
           | Inr query_data \<Rightarrow> (sync_pr_open query_data, s1)))"

text \<open>
  \<^verbatim>\<open>submit_pull_request\<close>. A body that is not JSON makes \<^verbatim>\<open>json.loads\<close> raise a
  ValueError, which the handler for \<^verbatim>\<open>requests.RequestException\<close> does not catch.
\<close>

definition submit_pull_request :: "env \<Rightarrow> string \<Rightarrow> state \<Rightarrow> exc option \<times> state" where
  "submit_pull_request ev pr_title s =
     (case dict_get (dot_cookietemple s) ''project_slug'' of
        Inl e \<Rightarrow> (Some e, s)
      | Inr slug \<Rightarrow>
          (let s1 = log_event (EvPost pr_title) s in
           case post_pulls ev of
             Inl e \<Rightarrow> (Some e, s1)
           | Inr r \<Rightarrow>
               if \<not> content_is_json r then (Some OtherException, s1)
               else
                 (let s2 = s1\<lparr>gh_pr_returned_data := content r\<rparr> in
                  if status_code r = 201 then (None, s2) else (Some (SystemExit 1), s2))))"

text \<open>\<^verbatim>\<open>make_pull_request\<close>.\<close>

definition pr_title_of :: "string \<Rightarrow> string" where
  "pr_title_of v = sync_pr_marker @ '' '' @ v @ '' released!''"

definition set_repo_owner :: "state \<Rightarrow> exc + state" where
  "set_repo_owner s =
     (case dict_get (dot_cookietemple s) ''is_github_orga'' of
        Inl e \<Rightarrow> Inl e
      | Inr is_orga \<Rightarrow>
          if truthy is_orga then
            (case dict_get (dot_cookietemple s) ''github_orga'' of
               Inl e \<Rightarrow> Inl e
             | Inr orga \<Rightarrow> Inr (s\<lparr>repo_owner := yaml_str orga\<rparr>))
          else Inr s)"

definition make_pull_request :: "env \<Rightarrow> state \<Rightarrow> exc option \<times> state" where
  "make_pull_request ev s =
     (case set_repo_owner s of
        Inl e \<Rightarrow> (Some e, s)
      | Inr s1 \<Rightarrow>
          (let pr_title = pr_title_of (new_template_version s1) in
           case check_pull_request_exists ev s1 of
             (Inl e, s2) \<Rightarrow> (Some e, s2)
           | (Inr pr_exists, s2) \<Rightarrow>
               if \<not> pr_exists then submit_pull_request ev pr_title s2 else (None, s2)))"

text \<open>\<^verbatim>\<open>reset_target_dir\<close>. Before \<^verbatim>\<open>inspect_sync_dir\<close> there is no \<^verbatim>\<open>self.repo\<close>.\<close>

definition reset_target_dir :: "env \<Rightarrow> state \<Rightarrow> exc option \<times> state" where
  "reset_target_dir ev s =
     (case original_branch s of
        None \<Rightarrow> (Some OtherException, s)
      | Some name \<Rightarrow>
          (let s1 = log_event (EvCheckout name) s in
           if checkout_original_ok ev then (None, s1\<lparr>repo_branch := Some name\<rparr>)
           else (Some (SystemExit 1), s1)))"

text \<open>The body of the \<^verbatim>\<open>try\<close> in \<^verbatim>\<open>sync\<close>, lines 87 and 88.\<close>

definition push_and_pr :: "env \<Rightarrow> state \<Rightarrow> exc option \<times> state" where
  "push_and_pr ev s =
     (case push_template_branch ev s of
        (Some e, s1) \<Rightarrow> (Some e, s1)
      | (None, s1) \<Rightarrow> make_pull_request ev s1)"

text \<open>
  \<^verbatim>\<open>sync\<close>. The handler \<^verbatim>\<open>except Exception\<close> resets the target directory and exits
  with status 1; a \<^verbatim>\<open>SystemExit\<close> from the \<^verbatim>\<open>try\<close> body passes it.
\<close>

definition sync :: "env \<Rightarrow> state \<Rightarrow> exc option \<times> state" where
  "sync ev s =
     (case inspect_sync_dir ev s of
        (Some e, s1) \<Rightarrow> (Some e, s1)
      | (None, s1) \<Rightarrow>
     (case checkout_template_branch ev s1 of
        (Some e, s2) \<Rightarrow> (Some e, s2)
      | (None, s2) \<Rightarrow>
     (case delete_template_branch_files ev s2 of
        (Some e, s3) \<Rightarrow> (Some e, s3)
      | (None, s3) \<Rightarrow>
     (case make_template_project ev s3 of
        (Some e, s4) \<Rightarrow> (Some e, s4)
      | (None, s4) \<Rightarrow>
     (case commit_template_changes ev s4 of
        (Inl e, s5) \<Rightarrow> (Some e, s5)
      | (Inr committed, s5) \<Rightarrow>
          if made_changes s5 then
            (case push_and_pr ev s5 of
               (Some e, s6) \<Rightarrow>
                 if is_Exception e then
                   (case reset_target_dir ev s6 of
                      (Some e', s7) \<Rightarrow> (Some e', s7)
                    | (None, s7) \<Rightarrow> (Some (SystemExit 1), s7))
                 else (Some e, s6)
             | (None, s6) \<Rightarrow> reset_target_dir ev s6)
          else reset_target_dir ev s5)))))"

section \<open>Terms of the claims\<close>

text \<open>
  The policy configuration is malformed: no \<open>sync_level\<close> section, not exactly one entry
  in it, or a value other than patch, minor and major.
\<close>

definition sync_level_malformed :: "config \<Rightarrow> bool" where
  "sync_level_malformed parser =
     (case map_of parser ''sync_level'' of
        None \<Rightarrow> True
      | Some its \<Rightarrow>
          (case its of
             [(name, level)] \<Rightarrow> \<not> (level = ''patch'' \<or> level = ''minor'' \<or> level = ''major'')
           | _ \<Rightarrow> True))"

text \<open>
  A title has a given prefix, as Python's \<^verbatim>\<open>title.startswith(pre)\<close> tests it: the
  reading of the specification's match by title prefix.
\<close>

definition startswith :: "string \<Rightarrow> string \<Rightarrow> bool" where
  "startswith title pre \<longleftrightarrow> take (length pre) title = pre"

text \<open>The operations that make a commit, push it or touch the pull requests.\<close>

fun commit_push_or_pr :: "event \<Rightarrow> bool" where
  "commit_push_or_pr (EvCommit files) = True"
| "commit_push_or_pr EvPush = True"
| "commit_push_or_pr EvQueryPRs = True"
| "commit_push_or_pr (EvPost title) = True"
| "commit_push_or_pr x = False"

section \<open>A concrete run\<close>

text \<open>
  An environment in which every call succeeds: regeneration changes three files, one of
  them under the blacklisted glob, and no pull request is open. The session starts on
  the branch \<open>development\<close>, for the template version 1.3.0.
\<close>

definition env_ok :: env where
  "env_ok =
     \<lparr>dot_cookietemple_exists = True,
      load_yaml_file = Inr [(''project_slug'', YStr ''demo''), (''is_github_orga'', YBool False)],
      is_git_repo = True, dirty_at_inspect = False,
      checkout_origin_template_ok = True, checkout_local_template_ok = True,
      delete_files = None, choose_domain = None, dirty_after_regenerate = True,
      git_add = None, index_diff = Inr [''a.txt'', ''b/c.md'', ''d.yml''],
      cfg = Inr [(''sync_level'', [(''ct_sync_level'', ''minor'')]),
                 (''sync_files_blacklisted'', [(''changelog'', ''*.md'')])],
      fnmatch = fnmatch_posix, popen_commit = Inr 0, popen_stash = Inr 0,
      git_push = None, open_prs = Inr [], 
      post_pulls = Inr \<lparr>status_code = 201, content = ''{}'', content_is_json = True\<rparr>,
      checkout_original_ok = True\<rparr>"

definition session0 :: state where
  "session0 = init ''/project'' ''1.3.0'' None ''alice'' ''secret'' False True False (Some ''development'')"

section \<open>What each step keeps\<close>

lemma inspect_ok:
  "inspect_sync_dir ev s = (None, s') \<Longrightarrow>
     original_branch s' = repo_branch s \<and> repo_branch s' = repo_branch s \<and> trace s' = trace s
     \<and> made_changes s' = made_changes s"
  by (auto simp: inspect_sync_dir_def Let_def split: if_splits sum.splits option.splits)

lemma checkout_keeps:
  "checkout_template_branch ev s = (r, s') \<Longrightarrow>
     original_branch s' = original_branch s \<and> made_changes s' = made_changes s"
  by (auto simp: checkout_template_branch_def log_event_def Let_def split: if_splits option.splits)

lemma delete_keeps:
  "delete_template_branch_files ev s = (r, s') \<Longrightarrow>
     original_branch s' = original_branch s \<and> made_changes s' = made_changes s"
  by (auto simp: delete_template_branch_files_def log_event_def Let_def split: if_splits option.splits)

lemma make_keeps:
  "make_template_project ev s = (r, s') \<Longrightarrow>
     original_branch s' = original_branch s \<and> made_changes s' = made_changes s"
  by (auto simp: make_template_project_def log_event_def Let_def split: if_splits option.splits sum.splits)

lemma commit_keeps:
  "commit_template_changes ev s = (r, s') \<Longrightarrow> original_branch s' = original_branch s"
  by (auto simp: commit_template_changes_def commit_handler_def log_event_def Let_def
      split: if_splits option.splits sum.splits prod.splits)

lemma push_keeps:
  "push_template_branch ev s = (r, s') \<Longrightarrow> original_branch s' = original_branch s"
  by (auto simp: push_template_branch_def log_event_def Let_def split: if_splits option.splits)

lemma mpr_keeps:
  "make_pull_request ev s = (r, s') \<Longrightarrow> original_branch s' = original_branch s"
  by (auto simp: make_pull_request_def set_repo_owner_def check_pull_request_exists_def
        submit_pull_request_def log_event_def Let_def
      split: if_splits option.splits sum.splits prod.splits)

lemma push_and_pr_keeps:
  "push_and_pr ev s = (r, s') \<Longrightarrow> original_branch s' = original_branch s"
  unfolding push_and_pr_def
  by (auto split: prod.splits option.splits dest!: push_keeps mpr_keeps)

lemma reset_ok:
  "reset_target_dir ev s = (None, s') \<Longrightarrow> repo_branch s' = original_branch s \<and> original_branch s' = original_branch s"
  by (auto simp: reset_target_dir_def log_event_def Let_def split: if_splits option.splits)


lemmas run_defs =
  sync_def init_def inspect_sync_dir_def checkout_template_branch_def
  delete_template_branch_files_def make_template_project_def commit_template_changes_def
  commit_handler_def get_blacklisted_sync_globs_def parser_items_def filter_excluded_def
  fnmatch_filter_def fnmatch_posix_def push_and_pr_def push_template_branch_def
  make_pull_request_def set_repo_owner_def dict_get_def check_pull_request_exists_def
  submit_pull_request_def pr_title_of_def reset_target_dir_def log_event_def Let_def

section \<open>Restoring the original branch\<close>

lemma sync_None:
  assumes "sync ev s = (None, s')"
  shows "repo_branch s' = repo_branch s \<and> original_branch s' = repo_branch s"
proof -
  from assms obtain s1 s2 s3 s4 s5 c where
    st: "inspect_sync_dir ev s = (None, s1)" "checkout_template_branch ev s1 = (None, s2)"
      "delete_template_branch_files ev s2 = (None, s3)" "make_template_project ev s3 = (None, s4)"
      "commit_template_changes ev s4 = (Inr c, s5)"
    by (auto simp: sync_def split: prod.splits option.splits sum.splits)
  have o5: "original_branch s5 = repo_branch s"
    using st inspect_ok checkout_keeps delete_keeps make_keeps commit_keeps by metis
  show ?thesis
  proof (cases "made_changes s5")
    case False
    with assms st have "reset_target_dir ev s5 = (None, s')" by (simp add: sync_def)
    with o5 show ?thesis using reset_ok by metis
  next
    case True
    with assms st obtain s6 where p: "push_and_pr ev s5 = (None, s6)" "reset_target_dir ev s6 = (None, s')"
      by (auto simp: sync_def split: prod.splits option.splits if_splits)
    with o5 show ?thesis using reset_ok push_and_pr_keeps by metis
  qed
qed

lemma sync_caught:
  assumes "inspect_sync_dir ev s = (None, s1)" "checkout_template_branch ev s1 = (None, s2)"
    and "delete_template_branch_files ev s2 = (None, s3)"
    and "make_template_project ev s3 = (None, s4)"
    and "commit_template_changes ev s4 = (Inr c, s5)" "made_changes s5"
    and "push_and_pr ev s5 = (Some e, s6)" "is_Exception e" "checkout_original_ok ev"
  shows "fst (sync ev s) = Some (SystemExit 1)
      \<and> repo_branch (snd (sync ev s)) = repo_branch s
      \<and> original_branch (snd (sync ev s)) = repo_branch s"
proof -
  have o6: "original_branch s6 = repo_branch s"
    using assms inspect_ok checkout_keeps delete_keeps make_keeps commit_keeps push_and_pr_keeps
    by metis
  have "repo_branch s \<noteq> None"
    using assms(1)
    by (auto simp: inspect_sync_dir_def Let_def split: if_splits sum.splits option.splits)
  then obtain name where n: "repo_branch s = Some name" by auto
  have r: "reset_target_dir ev s6 =
             (None, (log_event (EvCheckout name) s6)\<lparr>repo_branch := Some name\<rparr>)"
    using assms(9) o6 n by (simp add: reset_target_dir_def Let_def)
  have "sync ev s =
          (Some (SystemExit 1), (log_event (EvCheckout name) s6)\<lparr>repo_branch := Some name\<rparr>)"
    using assms r by (simp add: sync_def)
  then show ?thesis
    using n o6 by (simp add: log_event_def)
qed

text \<open>
  C1, as stated, fails: when the regeneration of the template raises, \<^verbatim>\<open>sync\<close> ends at
  once, with the sync branch checked out and the original branch recorded but not
  restored.
\<close>

theorem sync_regeneration_error_counterexample:
  "fst (sync (env_ok\<lparr>choose_domain := Some OtherException\<rparr>) session0) = Some OtherException
   \<and> original_branch (snd (sync (env_ok\<lparr>choose_domain := Some OtherException\<rparr>) session0))
       = Some ''development''
   \<and> repo_branch (snd (sync (env_ok\<lparr>choose_domain := Some OtherException\<rparr>) session0))
       = Some ''TEMPLATE''
   \<and> repo_branch (snd (sync (env_ok\<lparr>choose_domain := Some OtherException\<rparr>) session0))
       \<noteq> original_branch (snd (sync (env_ok\<lparr>choose_domain := Some OtherException\<rparr>) session0))"
  by (simp add: sync_def env_ok_def session0_def init_def inspect_sync_dir_def
      checkout_template_branch_def delete_template_branch_files_def make_template_project_def
      log_event_def Let_def)

text \<open>
  C1, amended: when the session succeeds (\<^verbatim>\<open>sync\<close> returns), the branch checked out at
  its end is the branch that was checked out, and recorded, at the start of Inspecting.
  The same holds when every step up to the commit succeeds, the push or the pull-request
  step raises an exception that the handler of \<^verbatim>\<open>sync\<close> catches, and the checkout of
  the original branch succeeds: the session then ends with exit status 1 on the original
  branch.
\<close>

theorem sync_restores_branch:
  "(fst (sync ev s) = None \<longrightarrow>
      repo_branch (snd (sync ev s)) = repo_branch s
      \<and> original_branch (snd (sync ev s)) = repo_branch s)
   \<and> (inspect_sync_dir ev s = (None, s1) \<and> checkout_template_branch ev s1 = (None, s2)
      \<and> delete_template_branch_files ev s2 = (None, s3)
      \<and> make_template_project ev s3 = (None, s4)
      \<and> commit_template_changes ev s4 = (Inr c, s5) \<and> made_changes s5
      \<and> push_and_pr ev s5 = (Some e, s6) \<and> is_Exception e \<and> checkout_original_ok ev \<longrightarrow>
      fst (sync ev s) = Some (SystemExit 1)
      \<and> repo_branch (snd (sync ev s)) = repo_branch s
      \<and> original_branch (snd (sync ev s)) = repo_branch s)"
proof (rule conjI)
  show "fst (sync ev s) = None \<longrightarrow>
      repo_branch (snd (sync ev s)) = repo_branch s
      \<and> original_branch (snd (sync ev s)) = repo_branch s"
  proof (rule impI)
    assume "fst (sync ev s) = None"
    then have "sync ev s = (None, snd (sync ev s))" by (metis prod.collapse)
    then show "repo_branch (snd (sync ev s)) = repo_branch s
      \<and> original_branch (snd (sync ev s)) = repo_branch s"
      by (rule sync_None)
  qed
next
  show "inspect_sync_dir ev s = (None, s1) \<and> checkout_template_branch ev s1 = (None, s2)
      \<and> delete_template_branch_files ev s2 = (None, s3)
      \<and> make_template_project ev s3 = (None, s4)
      \<and> commit_template_changes ev s4 = (Inr c, s5) \<and> made_changes s5
      \<and> push_and_pr ev s5 = (Some e, s6) \<and> is_Exception e \<and> checkout_original_ok ev \<longrightarrow>
      fst (sync ev s) = Some (SystemExit 1)
      \<and> repo_branch (snd (sync ev s)) = repo_branch s
      \<and> original_branch (snd (sync ev s)) = repo_branch s"
    using sync_caught by blast
qed

theorem sync_restores_branch_witness:
  "fst (sync env_ok session0) = None
   \<and> repo_branch (snd (sync env_ok session0)) = Some ''development''
   \<and> is_Exception OtherException \<and> checkout_original_ok (env_ok\<lparr>open_prs := Inl OtherException\<rparr>)
   \<and> fst (sync (env_ok\<lparr>open_prs := Inl OtherException\<rparr>) session0) = Some (SystemExit 1)
   \<and> repo_branch (snd (sync (env_ok\<lparr>open_prs := Inl OtherException\<rparr>) session0)) = Some ''development''"
proof -
  let ?ev = "env_ok\<lparr>open_prs := Inl OtherException\<rparr>"
  let ?s1 = "snd (inspect_sync_dir ?ev session0)"
  let ?s2 = "snd (checkout_template_branch ?ev ?s1)"
  let ?s3 = "snd (delete_template_branch_files ?ev ?s2)"
  let ?s4 = "snd (make_template_project ?ev ?s3)"
  let ?s5 = "snd (commit_template_changes ?ev ?s4)"
  let ?s6 = "snd (push_and_pr ?ev ?s5)"
  have ok: "fst (sync env_ok session0) = None"
    by (simp add: run_defs env_ok_def session0_def)
  have b0: "repo_branch session0 = Some ''development''"
    by (simp add: session0_def init_def)
  have h: "inspect_sync_dir ?ev session0 = (None, ?s1) \<and> checkout_template_branch ?ev ?s1 = (None, ?s2)
      \<and> delete_template_branch_files ?ev ?s2 = (None, ?s3)
      \<and> make_template_project ?ev ?s3 = (None, ?s4)
      \<and> commit_template_changes ?ev ?s4 = (Inr True, ?s5) \<and> made_changes ?s5
      \<and> push_and_pr ?ev ?s5 = (Some OtherException, ?s6) \<and> is_Exception OtherException
      \<and> checkout_original_ok ?ev"
    by (simp add: run_defs env_ok_def session0_def)
  show ?thesis
    using ok b0 h
      sync_restores_branch [of env_ok session0]
      sync_restores_branch [of ?ev session0 ?s1 ?s2 ?s3 ?s4 True ?s5 OtherException ?s6]
    by simp
qed

text \<open>
  A push that git refuses, and an answer to the POST other than 201, end in
  \<^verbatim>\<open>sys.exit(1)\<close> inside the \<^verbatim>\<open>try\<close> body: the handler of \<^verbatim>\<open>sync\<close> does not see
  them, and the session ends on the sync branch.
\<close>

lemma sync_exit_in_try_body:
  "sync (env_ok\<lparr>git_push := Some GitCommandError\<rparr>) session0 = (r, s) \<Longrightarrow>
     r = Some (SystemExit 1) \<and> repo_branch s = Some ''TEMPLATE''"
  "sync (env_ok\<lparr>post_pulls := Inr \<lparr>status_code = 422, content = ''{}'', content_is_json = True\<rparr>\<rparr>)
      session0 = (r, s) \<Longrightarrow>
     r = Some (SystemExit 1) \<and> repo_branch s = Some ''TEMPLATE''"
  by (auto simp: run_defs env_ok_def session0_def sync_pr_marker_def)

section \<open>Properties of the version comparator\<close>

text \<open>
  C2, as stated, fails: the code compares with \<open><\<close>, not with \<open>\<noteq>\<close>. From 2.0.0 to
  1.5.0 the majors are unequal, yet the code reports a minor update.
\<close>

theorem classify_inequality_counterexample:
  "classify \<lparr>major = 2, minor = 0, micro = 0, vstr = ''2.0.0''\<rparr>
            \<lparr>major = 1, minor = 5, micro = 0, vstr = ''1.5.0''\<rparr> = (False, True, False)
   \<and> classify_by_inequality \<lparr>major = 2, minor = 0, micro = 0, vstr = ''2.0.0''\<rparr>
            \<lparr>major = 1, minor = 5, micro = 0, vstr = ''1.5.0''\<rparr> = (True, False, False)
   \<and> classify \<lparr>major = 2, minor = 0, micro = 0, vstr = ''2.0.0''\<rparr>
            \<lparr>major = 1, minor = 5, micro = 0, vstr = ''1.5.0''\<rparr>
       \<noteq> classify_by_inequality \<lparr>major = 2, minor = 0, micro = 0, vstr = ''2.0.0''\<rparr>
            \<lparr>major = 1, minor = 5, micro = 0, vstr = ''1.5.0''\<rparr>"
  by (simp add: classify_def classify_by_inequality_def)

text \<open>
  C2, amended: for every pair of version triples in which the previously synced version
  is not newer than the current one, the first unequal component decides: major update
  if the majors differ, else minor update if the minors differ, else patch update if the
  micros differ, else no update.
\<close>

theorem classify_first_difference:
  "version_le a b \<Longrightarrow> classify a b = classify_by_inequality a b"
  by (auto simp: version_le_def classify_def classify_by_inequality_def)

theorem classify_first_difference_witness:
  "version_le \<lparr>major = 1, minor = 2, micro = 3, vstr = ''1.2.3''\<rparr>
              \<lparr>major = 1, minor = 3, micro = 0, vstr = ''1.3.0''\<rparr>
   \<and> classify \<lparr>major = 1, minor = 2, micro = 3, vstr = ''1.2.3''\<rparr>
              \<lparr>major = 1, minor = 3, micro = 0, vstr = ''1.3.0''\<rparr> = (False, True, False)"
proof -
  have h: "version_le \<lparr>major = 1, minor = 2, micro = 3, vstr = ''1.2.3''\<rparr>
              \<lparr>major = 1, minor = 3, micro = 0, vstr = ''1.3.0''\<rparr>"
    by (simp add: version_le_def)
  show ?thesis
    using h classify_first_difference [OF h] by (simp add: classify_by_inequality_def)
qed

text \<open>
  C6: whatever the parser and the two version strings, when the comparator returns, at
  most one of the three flags is true; and all three are false when both strings parse
  to the same version.
\<close>

theorem at_most_one_update_flag:
  "(has_template_version_changed parse development_ok master_ok last_sync current
      = Inr (is_major, is_minor, is_patch, v1, v2) \<longrightarrow>
      \<not> (is_major \<and> is_minor) \<and> \<not> (is_major \<and> is_patch) \<and> \<not> (is_minor \<and> is_patch))
   \<and> (parse last_sync = Inr v \<and> parse current = Inr v \<and> (development_ok \<or> master_ok) \<longrightarrow>
      has_template_version_changed parse development_ok master_ok last_sync current
        = Inr (False, False, False, vstr v, vstr v))"
  by (auto simp: has_template_version_changed_def classify_def split: if_splits sum.splits)

theorem at_most_one_update_flag_witness:
  "has_template_version_changed
      (\<lambda>t. if t = ''1.2.3'' then Inr \<lparr>major = 1, minor = 2, micro = 3, vstr = ''1.2.3''\<rparr>
           else if t = ''1.3.0'' then Inr \<lparr>major = 1, minor = 3, micro = 0, vstr = ''1.3.0''\<rparr>
           else Inl OtherException) True False ''1.2.3'' ''1.3.0''
     = Inr (False, True, False, ''1.2.3'', ''1.3.0'')
   \<and> \<not> (False \<and> True) \<and> \<not> (False \<and> False) \<and> \<not> (True \<and> False)
   \<and> has_template_version_changed
      (\<lambda>t. if t = ''1.2.3'' then Inr \<lparr>major = 1, minor = 2, micro = 3, vstr = ''1.2.3''\<rparr>
           else if t = ''1.3.0'' then Inr \<lparr>major = 1, minor = 3, micro = 0, vstr = ''1.3.0''\<rparr>
           else Inl OtherException) True False ''1.2.3'' ''1.2.3''
     = Inr (False, False, False, ''1.2.3'', ''1.2.3'')"
proof -
  let ?parse = "\<lambda>t. if t = ''1.2.3'' then Inr \<lparr>major = 1, minor = 2, micro = 3, vstr = ''1.2.3''\<rparr>
           else if t = ''1.3.0'' then Inr \<lparr>major = 1, minor = 3, micro = 0, vstr = ''1.3.0''\<rparr>
           else Inl OtherException"
  have r: "has_template_version_changed ?parse True False ''1.2.3'' ''1.3.0''
     = Inr (False, True, False, ''1.2.3'', ''1.3.0'')"
    by (simp add: has_template_version_changed_def classify_def)
  show ?thesis
    using r
      at_most_one_update_flag [of ?parse True False "''1.2.3''" "''1.3.0''" False True False
         "''1.2.3''" "''1.3.0''" "\<lparr>major = 1, minor = 2, micro = 3, vstr = ''1.2.3''\<rparr>"]
      at_most_one_update_flag [of ?parse True False "''1.2.3''" "''1.2.3''" False False False
         "''1.2.3''" "''1.2.3''" "\<lparr>major = 1, minor = 2, micro = 3, vstr = ''1.2.3''\<rparr>"]
    by simp
qed

section \<open>Properties of the policy filter\<close>

text \<open>
  C3: with a well-formed \<open>sync_level\<close> section, the patch tier passes exactly for the
  policy patch, the minor tier exactly for the policies patch and minor, and the major
  tier for every policy. A tier is the one flag set among the three.
\<close>

theorem check_sync_level_gating:
  assumes "cfg ev = Inr parser"
    and "map_of parser ''sync_level'' = Some [(name, level)]"
    and "contains ''ct_sync_level'' name"
    and "level = ''patch'' \<or> level = ''minor'' \<or> level = ''major''"
  shows "(patch_update s \<and> \<not> minor_update s \<and> \<not> major_update s \<longrightarrow>
            check_sync_level ev s = Inr (level = ''patch''))
       \<and> (minor_update s \<and> \<not> patch_update s \<and> \<not> major_update s \<longrightarrow>
            check_sync_level ev s = Inr (level = ''patch'' \<or> level = ''minor''))
       \<and> (major_update s \<and> \<not> patch_update s \<and> \<not> minor_update s \<longrightarrow>
            check_sync_level ev s = Inr True)"
  using assms by (auto simp: check_sync_level_def parser_items_def)

theorem check_sync_level_gating_witness:
  "check_sync_level env_ok (session0\<lparr>minor_update := False, patch_update := True\<rparr>) = Inr False
   \<and> check_sync_level env_ok session0 = Inr True
   \<and> check_sync_level env_ok (session0\<lparr>minor_update := False, major_update := True\<rparr>) = Inr True
   \<and> check_sync_level
        (env_ok\<lparr>cfg := Inr [(''sync_level'', [(''ct_sync_level'', ''patch'')])]\<rparr>)
        (session0\<lparr>minor_update := False, patch_update := True\<rparr>) = Inr True"
proof -
  have c: "cfg env_ok = Inr [(''sync_level'', [(''ct_sync_level'', ''minor'')]),
                 (''sync_files_blacklisted'', [(''changelog'', ''*.md'')])]"
    by (simp add: env_ok_def)
  have m: "map_of [(''sync_level'', [(''ct_sync_level'', ''minor'')]),
                 (''sync_files_blacklisted'', [(''changelog'', ''*.md'')])] ''sync_level''
            = Some [(''ct_sync_level'', ''minor'')]"
    by simp
  have c': "cfg (env_ok\<lparr>cfg := Inr [(''sync_level'', [(''ct_sync_level'', ''patch'')])]\<rparr>)
             = Inr [(''sync_level'', [(''ct_sync_level'', ''patch'')])]"
    by simp
  have m': "map_of [(''sync_level'', [(''ct_sync_level'', ''patch'')])] ''sync_level''
            = Some [(''ct_sync_level'', ''patch'')]"
    by simp
  have n: "contains ''ct_sync_level'' ''ct_sync_level''"
    by simp
  have l: "''minor'' = ''patch'' \<or> ''minor'' = ''minor'' \<or> ''minor'' = ''major''"
    by simp
  have l': "''patch'' = ''patch'' \<or> ''patch'' = ''minor'' \<or> ''patch'' = ''major''"
    by simp
  show ?thesis
    using check_sync_level_gating [OF c m n l, of "session0\<lparr>minor_update := False, patch_update := True\<rparr>"]
      check_sync_level_gating [OF c m n l, of session0]
      check_sync_level_gating [OF c m n l, of "session0\<lparr>minor_update := False, major_update := True\<rparr>"]
      check_sync_level_gating [OF c' m' n l', of "session0\<lparr>minor_update := False, patch_update := True\<rparr>"]
    by (simp add: session0_def init_def)
qed

text \<open>
  C9: with a well-formed \<open>sync_level\<close> section and none of the three flags set,
  \<^verbatim>\<open>check_sync_level\<close> returns true for every policy.
\<close>

theorem check_sync_level_no_update:
  assumes "cfg ev = Inr parser"
    and "map_of parser ''sync_level'' = Some [(name, level)]"
    and "contains ''ct_sync_level'' name"
    and "level = ''patch'' \<or> level = ''minor'' \<or> level = ''major''"
    and "\<not> major_update s" "\<not> minor_update s" "\<not> patch_update s"
  shows "check_sync_level ev s = Inr True"
  using assms by (auto simp: check_sync_level_def parser_items_def)

theorem check_sync_level_no_update_witness:
  "check_sync_level env_ok (session0\<lparr>minor_update := False\<rparr>) = Inr True
   \<and> check_sync_level
        (env_ok\<lparr>cfg := Inr [(''sync_level'', [(''ct_sync_level'', ''major'')])]\<rparr>)
        (session0\<lparr>minor_update := False\<rparr>) = Inr True"
proof -
  have c: "cfg env_ok = Inr [(''sync_level'', [(''ct_sync_level'', ''minor'')]),
                 (''sync_files_blacklisted'', [(''changelog'', ''*.md'')])]"
    by (simp add: env_ok_def)
  have m: "map_of [(''sync_level'', [(''ct_sync_level'', ''minor'')]),
                 (''sync_files_blacklisted'', [(''changelog'', ''*.md'')])] ''sync_level''
            = Some [(''ct_sync_level'', ''minor'')]"
    by simp
  have c': "cfg (env_ok\<lparr>cfg := Inr [(''sync_level'', [(''ct_sync_level'', ''major'')])]\<rparr>)
             = Inr [(''sync_level'', [(''ct_sync_level'', ''major'')])]"
    by simp
  have m': "map_of [(''sync_level'', [(''ct_sync_level'', ''major'')])] ''sync_level''
            = Some [(''ct_sync_level'', ''major'')]"
    by simp
  have n: "contains ''ct_sync_level'' ''ct_sync_level''"
    by simp
  have l: "''minor'' = ''patch'' \<or> ''minor'' = ''minor'' \<or> ''minor'' = ''major''"
    by simp
  have l': "''major'' = ''patch'' \<or> ''major'' = ''minor'' \<or> ''major'' = ''major''"
    by simp
  have f: "\<not> major_update (session0\<lparr>minor_update := False\<rparr>)"
    "\<not> minor_update (session0\<lparr>minor_update := False\<rparr>)"
    "\<not> patch_update (session0\<lparr>minor_update := False\<rparr>)"
    by (simp_all add: session0_def init_def)
  show ?thesis
    using check_sync_level_no_update [OF c m n l f] check_sync_level_no_update [OF c' m' n l' f]
    by simp
qed

text \<open>
  C7: when the \<open>sync_level\<close> section is absent, has not exactly one entry or holds another
  value than patch, minor and major, \<^verbatim>\<open>check_sync_level\<close> ends in \<^verbatim>\<open>sys.exit(1)\<close>
  and returns no decision; a file that the parser cannot read ends the process with
  status 1 as well.
\<close>

theorem check_sync_level_malformed:
  "(cfg ev = Inr parser \<and> sync_level_malformed parser \<longrightarrow>
      check_sync_level ev s = Inl (SystemExit 1))
   \<and> (cfg ev = Inl e \<and> is_Exception e \<longrightarrow>
      (\<exists>e'. check_sync_level ev s = Inl e' \<and> exit_status e' = 1))"
  by (cases e)
     (auto simp: check_sync_level_def parser_items_def sync_level_malformed_def
       split: option.splits list.splits prod.splits)

theorem check_sync_level_malformed_witness:
  "sync_level_malformed [(''sync_files_blacklisted'', [(''changelog'', ''*.md'')])]
   \<and> check_sync_level (env_ok\<lparr>cfg := Inr [(''sync_files_blacklisted'', [(''changelog'', ''*.md'')])]\<rparr>)
        session0 = Inl (SystemExit 1)
   \<and> sync_level_malformed [(''sync_level'', [(''ct_sync_level'', ''minor''), (''other'', ''patch'')])]
   \<and> check_sync_level
        (env_ok\<lparr>cfg := Inr [(''sync_level'', [(''ct_sync_level'', ''minor''), (''other'', ''patch'')])]\<rparr>)
        session0 = Inl (SystemExit 1)
   \<and> sync_level_malformed [(''sync_level'', [(''ct_sync_level'', ''all'')])]
   \<and> check_sync_level (env_ok\<lparr>cfg := Inr [(''sync_level'', [(''ct_sync_level'', ''all'')])]\<rparr>)
        session0 = Inl (SystemExit 1)
   \<and> is_Exception OtherException
   \<and> check_sync_level (env_ok\<lparr>cfg := Inl OtherException\<rparr>) session0 = Inl OtherException
   \<and> exit_status OtherException = 1"
proof -
  have a: "sync_level_malformed [(''sync_files_blacklisted'', [(''changelog'', ''*.md'')])]"
    "sync_level_malformed [(''sync_level'', [(''ct_sync_level'', ''minor''), (''other'', ''patch'')])]"
    "sync_level_malformed [(''sync_level'', [(''ct_sync_level'', ''all'')])]"
    by (simp_all add: sync_level_malformed_def)
  show ?thesis
    using a
      check_sync_level_malformed [of "env_ok\<lparr>cfg := Inr [(''sync_files_blacklisted'', [(''changelog'', ''*.md'')])]\<rparr>"
        "[(''sync_files_blacklisted'', [(''changelog'', ''*.md'')])]" session0 OtherException]
      check_sync_level_malformed [of "env_ok\<lparr>cfg := Inr [(''sync_level'', [(''ct_sync_level'', ''minor''), (''other'', ''patch'')])]\<rparr>"
        "[(''sync_level'', [(''ct_sync_level'', ''minor''), (''other'', ''patch'')])]" session0 OtherException]
      check_sync_level_malformed [of "env_ok\<lparr>cfg := Inr [(''sync_level'', [(''ct_sync_level'', ''all'')])]\<rparr>"
        "[(''sync_level'', [(''ct_sync_level'', ''all'')])]" session0 OtherException]
      check_sync_level_malformed [of "env_ok\<lparr>cfg := Inl OtherException\<rparr>" "[]" session0 OtherException]
    by (simp add: check_sync_level_def)
qed

section \<open>Blacklisted files\<close>









section \<open>What each step asks for\<close>

lemma contains_prefix: "contains v (v @ b)"
proof (cases "v @ b")
  case Nil
  then show ?thesis by simp
next
  case (Cons c cs)
  have "take (length v) (v @ b) = v" by simp
  then have "take (length v) (c # cs) = v" using Cons by simp
  then show ?thesis using Cons by simp
qed

lemma contains_self: "contains v (a @ v @ b)"
  by (induction a) (simp_all add: contains_prefix)

lemma sync_pr_open_found:
  "sync_pr_open prs = Inr found \<Longrightarrow>
     found = (\<exists>t. Some t \<in> set prs \<and> contains sync_pr_marker t)"
proof (induction prs rule: sync_pr_open.induct)
  case 1
  then show ?case by simp
next
  case (2 query_data)
  then show ?case by simp
next
  case (3 title query_data)
  then show ?case by (auto split: if_splits)
qed

lemma make_pull_request_trace:
  assumes "set_repo_owner s = Inr s1"
    and "map_of (dot_cookietemple s) ''project_slug'' = Some slug"
    and "open_prs ev = Inr prs" "sync_pr_open prs = Inr found"
  shows "trace (snd (make_pull_request ev s)) =
           trace s @ (if found then [EvQueryPRs]
                      else [EvQueryPRs, EvPost (pr_title_of (new_template_version s))])"
    and "found \<Longrightarrow> fst (make_pull_request ev s) = None"
proof -
  have d: "dot_cookietemple s1 = dot_cookietemple s" "trace s1 = trace s"
    "new_template_version s1 = new_template_version s"
    using assms(1) by (auto simp: set_repo_owner_def split: sum.splits if_splits)
  show "trace (snd (make_pull_request ev s)) =
           trace s @ (if found then [EvQueryPRs]
                      else [EvQueryPRs, EvPost (pr_title_of (new_template_version s))])"
    using assms d
    by (auto simp: make_pull_request_def check_pull_request_exists_def submit_pull_request_def
        dict_get_def log_event_def Let_def split: sum.splits)
  show "found \<Longrightarrow> fst (make_pull_request ev s) = None"
    using assms d
    by (auto simp: make_pull_request_def check_pull_request_exists_def dict_get_def log_event_def Let_def)
qed

lemma inspect_trace: "inspect_sync_dir ev s = (r, s') \<Longrightarrow> trace s' = trace s"
  by (auto simp: inspect_sync_dir_def Let_def split: if_splits sum.splits option.splits)

lemma inspect_made_changes:
  "inspect_sync_dir ev s = (r, s') \<Longrightarrow> made_changes s' = made_changes s"
  by (auto simp: inspect_sync_dir_def Let_def split: if_splits sum.splits option.splits)

lemma checkout_trace:
  "checkout_template_branch ev s = (r, s') \<Longrightarrow> x \<in> set (trace s') \<Longrightarrow>
     x \<in> set (trace s) \<or> (\<exists>b. x = EvCheckout b)"
  by (auto simp: checkout_template_branch_def log_event_def Let_def split: if_splits option.splits)

lemma delete_trace:
  "delete_template_branch_files ev s = (r, s') \<Longrightarrow> x \<in> set (trace s') \<Longrightarrow>
     x \<in> set (trace s) \<or> x = EvDeleteFiles"
  by (auto simp: delete_template_branch_files_def log_event_def Let_def split: if_splits option.splits)

lemma make_trace:
  "make_template_project ev s = (r, s') \<Longrightarrow> x \<in> set (trace s') \<Longrightarrow>
     x \<in> set (trace s) \<or> x = EvGenerate"
  by (auto simp: make_template_project_def log_event_def Let_def split: if_splits option.splits sum.splits)

lemma commit_trace:
  "commit_template_changes ev s = (r, s') \<Longrightarrow> x \<in> set (trace s') \<Longrightarrow>
     x \<in> set (trace s) \<or> x = EvAdd \<or> x = EvStash \<or> (\<exists>fs. x = EvCommit fs)"
  by (auto simp: commit_template_changes_def commit_handler_def log_event_def Let_def
      split: if_splits option.splits sum.splits prod.splits)

lemma commit_clean:
  "\<not> dirty_after_regenerate ev \<Longrightarrow> commit_template_changes ev s = (Inr False, s)"
  by (simp add: commit_template_changes_def)

lemma reset_trace:
  "reset_target_dir ev s = (r, s') \<Longrightarrow> x \<in> set (trace s') \<Longrightarrow>
     x \<in> set (trace s) \<or> (\<exists>b. x = EvCheckout b)"
  by (auto simp: reset_target_dir_def log_event_def Let_def split: if_splits option.splits)

lemma reset_made_changes:
  "reset_target_dir ev s = (r, s') \<Longrightarrow> made_changes s' = made_changes s"
  by (auto simp: reset_target_dir_def log_event_def Let_def split: if_splits option.splits)

lemma prepare_quiet:
  assumes "inspect_sync_dir ev s = (r1, s1)" "checkout_template_branch ev s1 = (r2, s2)"
    and "delete_template_branch_files ev s2 = (r3, s3)"
    and "make_template_project ev s3 = (r4, s4)"
    and "\<forall>x\<in>set (trace s). \<not> commit_push_or_pr x"
  shows "\<forall>x\<in>set (trace s1). \<not> commit_push_or_pr x"
    and "\<forall>x\<in>set (trace s2). \<not> commit_push_or_pr x"
    and "\<forall>x\<in>set (trace s3). \<not> commit_push_or_pr x"
    and "\<forall>x\<in>set (trace s4). \<not> commit_push_or_pr x"
proof -
  show 1: "\<forall>x\<in>set (trace s1). \<not> commit_push_or_pr x"
    using assms(1,5) inspect_trace by metis
  show 2: "\<forall>x\<in>set (trace s2). \<not> commit_push_or_pr x"
    using 1 checkout_trace [OF assms(2)] by fastforce
  show 3: "\<forall>x\<in>set (trace s3). \<not> commit_push_or_pr x"
    using 2 delete_trace [OF assms(3)] by fastforce
  show "\<forall>x\<in>set (trace s4). \<not> commit_push_or_pr x"
    using 3 make_trace [OF assms(4)] by fastforce
qed

lemma reset_quiet:
  assumes "reset_target_dir ev s = (r, s')" "\<forall>x\<in>set (trace s). \<not> commit_push_or_pr x"
  shows "\<forall>x\<in>set (trace s'). \<not> commit_push_or_pr x"
  using assms(2) reset_trace [OF assms(1)] by fastforce

section \<open>A session without changes\<close>

text \<open>
  C4: when the working copy is unchanged after the regeneration, a fresh session ends with
  the made-changes flag still false, and it has made no commit, no push, no query of the
  pull requests and no new pull request; \<^verbatim>\<open>commit_template_changes\<close> returns false and
  leaves the state as it is.
\<close>

theorem sync_no_changes:
  assumes "\<not> dirty_after_regenerate ev" "\<not> made_changes s" "trace s = []"
  shows "\<not> made_changes (snd (sync ev s))
       \<and> (\<forall>x\<in>set (trace (snd (sync ev s))). \<not> commit_push_or_pr x)
       \<and> commit_template_changes ev s' = (Inr False, s')"
proof -
  obtain r1 s1 where i: "inspect_sync_dir ev s = (r1, s1)" by (cases "inspect_sync_dir ev s")
  obtain r2 s2 where c: "checkout_template_branch ev s1 = (r2, s2)"
    by (cases "checkout_template_branch ev s1")
  obtain r3 s3 where d: "delete_template_branch_files ev s2 = (r3, s3)"
    by (cases "delete_template_branch_files ev s2")
  obtain r4 s4 where m: "make_template_project ev s3 = (r4, s4)"
    by (cases "make_template_project ev s3")
  obtain r5 s5 where r: "reset_target_dir ev s4 = (r5, s5)"
    by (cases "reset_target_dir ev s4")
  have q0: "\<forall>x\<in>set (trace s). \<not> commit_push_or_pr x"
    using assms(3) by simp
  note q = prepare_quiet [OF i c d m q0]
  have q5: "\<forall>x\<in>set (trace s5). \<not> commit_push_or_pr x"
    using reset_quiet [OF r q(4)] .
  have m1: "\<not> made_changes s1"
    using assms(2) inspect_made_changes [OF i] by simp
  have m2: "\<not> made_changes s2"
    using m1 checkout_keeps [OF c] by simp
  have m3: "\<not> made_changes s3"
    using m2 delete_keeps [OF d] by simp
  have m4: "\<not> made_changes s4"
    using m3 make_keeps [OF m] by simp
  have m5: "\<not> made_changes s5"
    using m4 reset_made_changes [OF r] by simp
  note mc = m1 m2 m3 m4 m5
  have k: "commit_template_changes ev s4 = (Inr False, s4)"
    using assms(1) by (rule commit_clean)
  have "snd (sync ev s) = s1 \<or> snd (sync ev s) = s2 \<or> snd (sync ev s) = s3
        \<or> snd (sync ev s) = s4 \<or> snd (sync ev s) = s5"
    using i c d m r k mc by (auto simp: sync_def split: option.splits)
  then have "\<not> made_changes (snd (sync ev s))
       \<and> (\<forall>x\<in>set (trace (snd (sync ev s))). \<not> commit_push_or_pr x)"
    using mc q q5 by metis
  then show ?thesis
    using commit_clean [OF assms(1)] by simp
qed

theorem sync_no_changes_witness:
  "\<not> dirty_after_regenerate (env_ok\<lparr>dirty_after_regenerate := False\<rparr>)
   \<and> \<not> made_changes session0 \<and> trace session0 = []
   \<and> \<not> made_changes (snd (sync (env_ok\<lparr>dirty_after_regenerate := False\<rparr>) session0))
   \<and> filter commit_push_or_pr
         (trace (snd (sync (env_ok\<lparr>dirty_after_regenerate := False\<rparr>) session0))) = []
   \<and> fst (sync (env_ok\<lparr>dirty_after_regenerate := False\<rparr>) session0) = None"
proof -
  have a: "\<not> dirty_after_regenerate (env_ok\<lparr>dirty_after_regenerate := False\<rparr>)"
    by simp
  have b: "\<not> made_changes session0" and c: "trace session0 = []"
    by (simp_all add: session0_def init_def)
  have d: "fst (sync (env_ok\<lparr>dirty_after_regenerate := False\<rparr>) session0) = None"
    by (simp add: run_defs env_ok_def session0_def)
  note t = sync_no_changes [OF a b c, of session0]
  from t have t1: "\<not> made_changes (snd (sync (env_ok\<lparr>dirty_after_regenerate := False\<rparr>) session0))"
    by (rule conjunct1)
  from t have "\<forall>x\<in>set (trace (snd (sync (env_ok\<lparr>dirty_after_regenerate := False\<rparr>) session0))).
         \<not> commit_push_or_pr x"
    by (rule conjunct2 [THEN conjunct1])
  then have t2: "filter commit_push_or_pr
         (trace (snd (sync (env_ok\<lparr>dirty_after_regenerate := False\<rparr>) session0))) = []"
    by (simp add: filter_empty_conv)
  show ?thesis
    by (intro conjI; fact)
qed

section \<open>Pull requests\<close>

lemma push_and_pr_post:
  assumes "push_and_pr ev s = (r, s')" "EvPost t \<in> set (trace s')" "EvPost t \<notin> set (trace s)"
  shows "EvPush \<in> set (trace s') \<and> git_push ev = None"
  using assms
  by (auto simp: push_and_pr_def push_template_branch_def make_pull_request_def
      set_repo_owner_def check_pull_request_exists_def submit_pull_request_def log_event_def
      Let_def split: if_splits option.splits sum.splits prod.splits)

lemma reset_trace_mono:
  "reset_target_dir ev s = (r, s') \<Longrightarrow> set (trace s) \<subseteq> set (trace s')"
  by (auto simp: reset_target_dir_def log_event_def Let_def split: if_splits option.splits)

lemma sync_post_after_push:
  assumes "trace s = []" "EvPost t \<in> set (trace (snd (sync ev s)))"
  shows "EvPush \<in> set (trace (snd (sync ev s))) \<and> git_push ev = None"
proof -
  obtain r1 s1 where i: "inspect_sync_dir ev s = (r1, s1)" by (cases "inspect_sync_dir ev s")
  obtain r2 s2 where c: "checkout_template_branch ev s1 = (r2, s2)"
    by (cases "checkout_template_branch ev s1")
  obtain r3 s3 where d: "delete_template_branch_files ev s2 = (r3, s3)"
    by (cases "delete_template_branch_files ev s2")
  obtain r4 s4 where m: "make_template_project ev s3 = (r4, s4)"
    by (cases "make_template_project ev s3")
  obtain r5 s5 where k: "commit_template_changes ev s4 = (r5, s5)"
    by (cases "commit_template_changes ev s4")
  obtain r6 s6 where p: "push_and_pr ev s5 = (r6, s6)" by (cases "push_and_pr ev s5")
  obtain r7 s7 where x: "reset_target_dir ev s6 = (r7, s7)" by (cases "reset_target_dir ev s6")
  obtain r8 s8 where y: "reset_target_dir ev s5 = (r8, s8)" by (cases "reset_target_dir ev s5")
  have n1: "EvPost t \<notin> set (trace s1)"
    using assms(1) inspect_trace [OF i] by simp
  have n2: "EvPost t \<notin> set (trace s2)"
    using n1 checkout_trace [OF c] by blast
  have n3: "EvPost t \<notin> set (trace s3)"
    using n2 delete_trace [OF d] by blast
  have n4: "EvPost t \<notin> set (trace s4)"
    using n3 make_trace [OF m] by blast
  have n5: "EvPost t \<notin> set (trace s5)"
    using n4 commit_trace [OF k] by blast
  have n8: "EvPost t \<notin> set (trace s8)"
    using n5 reset_trace [OF y] by blast
  have "snd (sync ev s) = s1 \<or> snd (sync ev s) = s2 \<or> snd (sync ev s) = s3
        \<or> snd (sync ev s) = s4 \<or> snd (sync ev s) = s5 \<or> snd (sync ev s) = s8
        \<or> snd (sync ev s) = s6 \<or> snd (sync ev s) = s7"
    using i c d m k p x y by (auto simp: sync_def split: option.splits sum.splits)
  with assms(2) n1 n2 n3 n4 n5 n8
  have fin: "snd (sync ev s) = s6 \<or> snd (sync ev s) = s7" by metis
  have "EvPost t \<in> set (trace s6)"
    using fin assms(2) reset_trace [OF x] by auto
  then have g: "EvPush \<in> set (trace s6) \<and> git_push ev = None"
    using push_and_pr_post [OF p] n5 by simp
  then have "EvPush \<in> set (trace s7)"
    using reset_trace_mono [OF x] by blast
  with g fin show ?thesis by auto
qed

text \<open>
  C8, as stated, fails: the code looks for the sync title text anywhere in a title, not at
  its start. The one open pull request below does not carry the text as a prefix, so a
  new pull request is due; yet the session pushes, queries, posts nothing and returns.
\<close>

theorem make_pull_request_prefix_counterexample:
  "\<not> startswith ''Revert: Important cookietemple template update 1.2.0 released!'' sync_pr_marker
   \<and> fst (sync (env_ok\<lparr>open_prs :=
          Inr [Some ''Revert: Important cookietemple template update 1.2.0 released!'']\<rparr>)
        session0) = None
   \<and> trace (snd (sync (env_ok\<lparr>open_prs :=
          Inr [Some ''Revert: Important cookietemple template update 1.2.0 released!'']\<rparr>)
        session0))
       = [EvCheckout ''origin/TEMPLATE'', EvDeleteFiles, EvGenerate, EvAdd,
          EvCommit [''a.txt'', ''d.yml''], EvStash, EvPush, EvQueryPRs,
          EvCheckout ''development'']"
  by (simp add: run_defs env_ok_def session0_def sync_pr_marker_def startswith_def)

text \<open>
  C8, amended: when the query of the open pull requests returns, \<^verbatim>\<open>make_pull_request\<close>
  posts a new pull request exactly when the text \<open>Important cookietemple template update\<close>
  occurs in the title of no open pull request, at its start or anywhere else in it. When
  it occurs in one, nothing is posted and the method returns. The title posted contains
  the new template version. In a session, a pull request is posted only after the push,
  and only when the push succeeded.
\<close>

theorem make_pull_request_gate:
  "(set_repo_owner s = Inr s1 \<and> map_of (dot_cookietemple s) ''project_slug'' = Some slug
      \<and> open_prs ev = Inr prs \<and> sync_pr_open prs = Inr found \<longrightarrow>
      found = (\<exists>t. Some t \<in> set prs \<and> contains sync_pr_marker t)
      \<and> trace (snd (make_pull_request ev s)) =
          trace s @ (if found then [EvQueryPRs]
                     else [EvQueryPRs, EvPost (pr_title_of (new_template_version s))])
      \<and> (found \<longrightarrow> fst (make_pull_request ev s) = None))
   \<and> contains (new_template_version s) (pr_title_of (new_template_version s))
   \<and> (trace s0 = [] \<and> EvPost title \<in> set (trace (snd (sync ev s0))) \<longrightarrow>
      EvPush \<in> set (trace (snd (sync ev s0))) \<and> git_push ev = None)"
proof -
  have 1: "set_repo_owner s = Inr s1 \<and> map_of (dot_cookietemple s) ''project_slug'' = Some slug
      \<and> open_prs ev = Inr prs \<and> sync_pr_open prs = Inr found \<longrightarrow>
      found = (\<exists>t. Some t \<in> set prs \<and> contains sync_pr_marker t)
      \<and> trace (snd (make_pull_request ev s)) =
          trace s @ (if found then [EvQueryPRs]
                     else [EvQueryPRs, EvPost (pr_title_of (new_template_version s))])
      \<and> (found \<longrightarrow> fst (make_pull_request ev s) = None)"
    using sync_pr_open_found make_pull_request_trace by blast
  have 2: "contains (new_template_version s) (pr_title_of (new_template_version s))"
    unfolding pr_title_of_def
    using contains_self [of "new_template_version s" "sync_pr_marker @ '' ''" "'' released!''"]
    by simp
  have 3: "trace s0 = [] \<and> EvPost title \<in> set (trace (snd (sync ev s0))) \<longrightarrow>
      EvPush \<in> set (trace (snd (sync ev s0))) \<and> git_push ev = None"
    using sync_post_after_push by blast
  show ?thesis
    by (intro conjI; fact)
qed

theorem make_pull_request_gate_witness:
  "fst (make_pull_request (env_ok\<lparr>open_prs := Inr [Some ''Fix typo'',
          Some ''Important cookietemple template update 1.2.0 released!'']\<rparr>)
        (snd (inspect_sync_dir env_ok session0))) = None
   \<and> trace (snd (make_pull_request (env_ok\<lparr>open_prs := Inr [Some ''Fix typo'',
          Some ''Important cookietemple template update 1.2.0 released!'']\<rparr>)
        (snd (inspect_sync_dir env_ok session0)))) = [EvQueryPRs]
   \<and> trace (snd (make_pull_request (env_ok\<lparr>open_prs := Inr [Some ''Fix typo'']\<rparr>)
        (snd (inspect_sync_dir env_ok session0))))
       = [EvQueryPRs, EvPost ''Important cookietemple template update 1.3.0 released!'']
   \<and> EvPush \<in> set (trace (snd (sync env_ok session0)))"
proof -
  let ?s = "snd (inspect_sync_dir env_ok session0)"
  let ?e1 = "env_ok\<lparr>open_prs := Inr [Some ''Fix typo'',
          Some ''Important cookietemple template update 1.2.0 released!'']\<rparr>"
  let ?e2 = "env_ok\<lparr>open_prs := Inr [Some ''Fix typo'']\<rparr>"
  have s: "set_repo_owner ?s = Inr ?s \<and> map_of (dot_cookietemple ?s) ''project_slug'' = Some (YStr ''demo'')"
    "trace ?s = []" "new_template_version ?s = ''1.3.0''"
    by (simp_all add: run_defs env_ok_def session0_def)
  have o1: "open_prs ?e1 = Inr [Some ''Fix typo'',
          Some ''Important cookietemple template update 1.2.0 released!'']
      \<and> sync_pr_open [Some ''Fix typo'',
          Some ''Important cookietemple template update 1.2.0 released!''] = Inr True"
    by (simp add: sync_pr_marker_def)
  have o2: "open_prs ?e2 = Inr [Some ''Fix typo''] \<and> sync_pr_open [Some ''Fix typo''] = Inr False"
    by (simp add: sync_pr_marker_def)
  have p: "trace session0 = []
      \<and> EvPost ''Important cookietemple template update 1.3.0 released!''
          \<in> set (trace (snd (sync env_ok session0)))"
    by (simp add: run_defs env_ok_def session0_def sync_pr_marker_def)
  note g1 = make_pull_request_gate [of ?s ?s "YStr ''demo''" ?e1 _ True, THEN conjunct1]
  note g2 = make_pull_request_gate [of ?s ?s "YStr ''demo''" ?e2 _ False, THEN conjunct1]
  note g3 = make_pull_request_gate [of ?s ?s "YStr ''demo''" env_ok "[]" False session0
      "''Important cookietemple template update 1.3.0 released!''",
      THEN conjunct2, THEN conjunct2]
  have a: "fst (make_pull_request ?e1 ?s) = None \<and> trace (snd (make_pull_request ?e1 ?s)) = [EvQueryPRs]"
    using g1 s o1 by simp
  have b: "trace (snd (make_pull_request ?e2 ?s))
       = [EvQueryPRs, EvPost ''Important cookietemple template update 1.3.0 released!'']"
    using g2 s o2 by (simp add: pr_title_of_def sync_pr_marker_def)
  have c: "EvPush \<in> set (trace (snd (sync env_ok session0)))"
    using g3 p by simp
  show ?thesis
    using a b c by simp
qed

section \<open>The commit and its exit status\<close>

text \<open>
  C10, as stated, fails: staging succeeds, but \<^verbatim>\<open>cookietemple.cfg\<close> has no section
  \<open>sync_files_blacklisted\<close>; the method ends in \<^verbatim>\<open>sys.exit(1)\<close> before any commit,
  with the made-changes flag still false.
\<close>

theorem commit_unconditional_counterexample:
  "dirty_after_regenerate (env_ok\<lparr>cfg := Inr [(''sync_level'', [(''ct_sync_level'', ''minor'')])]\<rparr>)
   \<and> git_add (env_ok\<lparr>cfg := Inr [(''sync_level'', [(''ct_sync_level'', ''minor'')])]\<rparr>) = None
   \<and> fst (commit_template_changes
            (env_ok\<lparr>cfg := Inr [(''sync_level'', [(''ct_sync_level'', ''minor'')])]\<rparr>) session0)
       = Inl (SystemExit 1)
   \<and> \<not> made_changes (snd (commit_template_changes
            (env_ok\<lparr>cfg := Inr [(''sync_level'', [(''ct_sync_level'', ''minor'')])]\<rparr>) session0))"
  by (simp add: run_defs env_ok_def session0_def)

text \<open>
  C10, amended: once staging succeeds, the changed files are listed, the blacklisted globs
  are read and both subprocesses are started, \<^verbatim>\<open>commit_template_changes\<close> sets the
  made-changes flag and returns true, whatever exit status \<^verbatim>\<open>git commit\<close> and
  \<^verbatim>\<open>git stash\<close> end with.
\<close>

theorem commit_ignores_exit_status:
  assumes "dirty_after_regenerate ev" "git_add ev = None" "index_diff ev = Inr changed_files"
    and "get_blacklisted_sync_globs ev = Inr globs"
    and "popen_commit ev = Inr commit_status" "popen_stash ev = Inr stash_status"
  shows "fst (commit_template_changes ev s) = Inr True
       \<and> made_changes (snd (commit_template_changes ev s))"
  using assms by (simp add: commit_template_changes_def Let_def split: prod.splits)

theorem commit_ignores_exit_status_witness:
  "fst (commit_template_changes (env_ok\<lparr>popen_commit := Inr 1, popen_stash := Inr 1\<rparr>) session0)
     = Inr True
   \<and> made_changes (snd (commit_template_changes
        (env_ok\<lparr>popen_commit := Inr 1, popen_stash := Inr 1\<rparr>) session0))"
proof -
  let ?ev = "env_ok\<lparr>popen_commit := Inr 1, popen_stash := Inr 1\<rparr>"
  have a: "dirty_after_regenerate ?ev" "git_add ?ev = None"
    "index_diff ?ev = Inr [''a.txt'', ''b/c.md'', ''d.yml'']"
    "get_blacklisted_sync_globs ?ev = Inr [''*.md'']"
    "popen_commit ?ev = Inr 1" "popen_stash ?ev = Inr 1"
    by (simp_all add: env_ok_def get_blacklisted_sync_globs_def parser_items_def)
  show ?thesis
    by (rule commit_ignores_exit_status [OF a])
qed

end
